theory Spec2Isabelle
  imports Main
begin

section \<open>Type descriptors\<close>

text \<open>
  The package works on \<^verbatim>\<open>reflect.Type\<close> values and only asks them for their
  \<^verbatim>\<open>Kind()\<close>, their \<^verbatim>\<open>Elem()\<close>, their fields and whether one type is assignable
  to another. A type descriptor is modelled as a finite tree; \<open>NamedT\<close> is a defined
  type (\<^verbatim>\<open>type decision bool\<close>) over its underlying type. Go's cyclic type
  declarations (\<^verbatim>\<open>type P *P\<close>) have no finite tree and are outside the model.
\<close>

datatype kind =
    KInvalid | KBool
  | KInt | KInt8 | KInt16 | KInt32 | KInt64
  | KUint | KUint8 | KUint16 | KUint32 | KUint64 | KUintptr
  | KFloat32 | KFloat64 | KComplex64 | KComplex128
  | KArray | KChan | KFunc | KInterface | KMap | KPointer | KSlice | KString | KStruct
  | KUnsafePointer

datatype basic =
    BBool
  | BInt | BInt8 | BInt16 | BInt32 | BInt64
  | BUint | BUint8 | BUint16 | BUint32 | BUint64 | BUintptr
  | BFloat32 | BFloat64 | BComplex64 | BComplex128
  | BString | BUnsafePointer

datatype chandir = RecvDir | SendDir | BothDir

datatype ty =
    BasicT basic
  | ArrayT nat ty
  | ChanT chandir ty
  | FuncT "ty list" "ty list"
  | InterfaceT "string list"
  | MapT ty ty
  | PointerT ty
  | SliceT ty
  | StructT "(string \<times> bool \<times> ty) list"
  | NamedT string ty
  | RefT string

fun kind_of_basic :: "basic \<Rightarrow> kind" where
  "kind_of_basic BBool = KBool"
| "kind_of_basic BInt = KInt"
| "kind_of_basic BInt8 = KInt8"
| "kind_of_basic BInt16 = KInt16"
| "kind_of_basic BInt32 = KInt32"
| "kind_of_basic BInt64 = KInt64"
| "kind_of_basic BUint = KUint"
| "kind_of_basic BUint8 = KUint8"
| "kind_of_basic BUint16 = KUint16"
| "kind_of_basic BUint32 = KUint32"
| "kind_of_basic BUint64 = KUint64"
| "kind_of_basic BUintptr = KUintptr"
| "kind_of_basic BFloat32 = KFloat32"
| "kind_of_basic BFloat64 = KFloat64"
| "kind_of_basic BComplex64 = KComplex64"
| "kind_of_basic BComplex128 = KComplex128"
| "kind_of_basic BString = KString"
| "kind_of_basic BUnsafePointer = KUnsafePointer"

text \<open>\<^verbatim>\<open>Type.Kind()\<close>: a defined type has the kind of its underlying type.\<close>

fun Kind :: "ty \<Rightarrow> kind" where
  "Kind (BasicT b) = kind_of_basic b"
| "Kind (ArrayT n t) = KArray"
| "Kind (ChanT d t) = KChan"
| "Kind (FuncT ins outs) = KFunc"
| "Kind (InterfaceT ms) = KInterface"
| "Kind (MapT k v) = KMap"
| "Kind (PointerT t) = KPointer"
| "Kind (SliceT t) = KSlice"
| "Kind (StructT fs) = KStruct"
| "Kind (NamedT n t) = Kind t"
| "Kind (RefT n) = KInvalid"

text \<open>
  A type declaration may use the type it declares, as \<^verbatim>\<open>type P *P\<close> and
  \<^verbatim>\<open>type List struct { Next *List }\<close> do. In \<open>NamedT n t\<close> the underlying type
  \<open>t\<close> names the declared type by \<open>RefT n\<close>; \<open>unfold n P\<close> puts the type
  \<open>P\<close> where a type names \<open>n\<close>, which is how the element and field types of a
  defined type are the defined type again.
\<close>

primrec unfold :: "string \<Rightarrow> ty \<Rightarrow> ty \<Rightarrow> ty" where
  "unfold n P (BasicT b) = BasicT b"
| "unfold n P (ArrayT k t) = ArrayT k (unfold n P t)"
| "unfold n P (ChanT d t) = ChanT d (unfold n P t)"
| "unfold n P (FuncT ins outs) = FuncT (map (unfold n P) ins) (map (unfold n P) outs)"
| "unfold n P (InterfaceT ms) = InterfaceT ms"
| "unfold n P (MapT k v) = MapT (unfold n P k) (unfold n P v)"
| "unfold n P (PointerT t) = PointerT (unfold n P t)"
| "unfold n P (SliceT t) = SliceT (unfold n P t)"
| "unfold n P (StructT fs) = StructT (map (map_prod id (map_prod id (unfold n P))) fs)"
| "unfold n P (NamedT m t) = (if m = n then NamedT m t else NamedT m (unfold n P t))"
| "unfold n P (RefT m) = (if m = n then P else RefT m)"

text \<open>
  \<^verbatim>\<open>Type.Elem()\<close> panics unless the kind is Array, Chan, Map, Pointer or Slice;
  \<open>None\<close> is that panic.
\<close>

fun Elem :: "ty \<Rightarrow> ty option" where
  "Elem (ArrayT n t) = Some t"
| "Elem (ChanT d t) = Some t"
| "Elem (MapT k v) = Some v"
| "Elem (PointerT t) = Some t"
| "Elem (SliceT t) = Some t"
| "Elem (NamedT n t) = map_option (unfold n (NamedT n t)) (Elem t)"
| "Elem (RefT n) = None"
| "Elem (BasicT b) = None"
| "Elem (FuncT ins outs) = None"
| "Elem (InterfaceT ms) = None"
| "Elem (StructT fs) = None"

text \<open>
  \<^verbatim>\<open>Type.ChanDir()\<close> panics unless the kind is Chan; \<open>None\<close> is that panic.
\<close>

fun ChanDir :: "ty \<Rightarrow> chandir option" where
  "ChanDir (ChanT d t) = Some d"
| "ChanDir (NamedT n t) = ChanDir t"
| "ChanDir (RefT n) = None"
| "ChanDir (BasicT b) = None"
| "ChanDir (ArrayT n t) = None"
| "ChanDir (FuncT ins outs) = None"
| "ChanDir (InterfaceT ms) = None"
| "ChanDir (MapT k v) = None"
| "ChanDir (PointerT t) = None"
| "ChanDir (SliceT t) = None"
| "ChanDir (StructT fs) = None"

text \<open>
  The fields of a struct type in declaration order, as \<^verbatim>\<open>NumField\<close> and
  \<^verbatim>\<open>Field(i)\<close> enumerate them: name, \<^verbatim>\<open>IsExported()\<close>, declared type.
\<close>

type_synonym field = "string \<times> bool \<times> ty"

definition IsExported :: "field \<Rightarrow> bool" where
  "IsExported f = fst (snd f)"

definition fieldType :: "field \<Rightarrow> ty" where
  "fieldType f = snd (snd f)"

fun Fields :: "ty \<Rightarrow> field list" where
  "Fields (StructT fs) = fs"
| "Fields (NamedT n t) = map (map_prod id (map_prod id (unfold n (NamedT n t)))) (Fields t)"
| "Fields (RefT n) = []"
| "Fields (BasicT b) = []"
| "Fields (ArrayT n t) = []"
| "Fields (ChanT d t) = []"
| "Fields (FuncT ins outs) = []"
| "Fields (InterfaceT ms) = []"
| "Fields (MapT k v) = []"
| "Fields (PointerT t) = []"
| "Fields (SliceT t) = []"

section \<open>Lifetimes\<close>

text \<open>
  \<^verbatim>\<open>type Lifetime int\<close> with \<^verbatim>\<open>Transient = iota + 1\<close>, \<^verbatim>\<open>Scoped\<close>,
  \<^verbatim>\<open>Singleton\<close>: any integer is a value of the type.
\<close>

type_synonym Lifetime = int

definition Transient :: Lifetime where "Transient = 1"
definition Scoped :: Lifetime where "Scoped = 2"
definition Singleton :: Lifetime where "Singleton = 3"

definition knownLifetimes :: "Lifetime \<rightharpoonup> string" where
  "knownLifetimes = [Transient \<mapsto> ''Transient'', Scoped \<mapsto> ''Scoped'', Singleton \<mapsto> ''Singleton'']"

section \<open>Errors\<close>

text \<open>
  The error values of the package. The sentinels (\<^verbatim>\<open>ErrNoDefaultFactory\<close> and the
  others made by \<^verbatim>\<open>errors.New\<close>) are constructors without arguments, the typed
  errors carry their fields, \<open>resolverError\<close> wraps the resolver's error, and
  \<open>OtherError\<close> is any error made outside the package (by a factory or a foreign
  resolver). \<open>InvalidResolution\<close> holds \<^verbatim>\<open>reflect.TypeOf(resolved)\<close>, which is
  nil (\<open>None\<close>) for a nil interface value.
\<close>

datatype error =
    ErrNilResolver
  | ErrResolverError
  | resolverError error
  | ErrInvalidResolution
  | InvalidResolution ty "ty option"
  | ErrNonConcreteImplementation
  | NonConcreteImplementation ty
  | ErrInvalidImplementation
  | InvalidImplementation ty ty
  | ErrUndefinedLifetime
  | UndefinedLifetime Lifetime
  | ErrUnsharableType
  | UnsharableType ty Lifetime
  | ErrNoDefaultFactory
  | NoDefaultFactory ty
  | ErrNilFactory
  | ErrUnknownType
  | UnknownType ty
  | ErrScopedValueRequestedFromRootProvider
  | ScopedValueRequestedFromRootProvider ty
  | OtherError string

text \<open>The \<^verbatim>\<open>Is\<close> method each typed error declares.\<close>

fun Is_method :: "error \<Rightarrow> error \<Rightarrow> bool" where
  "Is_method (resolverError e) target = (target = ErrResolverError)"
| "Is_method (InvalidResolution req ret) target = (target = ErrInvalidResolution)"
| "Is_method (NonConcreteImplementation t) target = (target = ErrNonConcreteImplementation)"
| "Is_method (InvalidImplementation t tg) target = (target = ErrInvalidImplementation)"
| "Is_method (UndefinedLifetime l) target = (target = ErrUndefinedLifetime)"
| "Is_method (UnsharableType t l) target = (target = ErrUnsharableType)"
| "Is_method (NoDefaultFactory t) target = (target = ErrNoDefaultFactory)"
| "Is_method (UnknownType t) target = (target = ErrUnknownType)"
| "Is_method (ScopedValueRequestedFromRootProvider t) target =
     (target = ErrScopedValueRequestedFromRootProvider)"
| "Is_method e target = False"

text \<open>
  \<^verbatim>\<open>errors.Is(err, target)\<close>: the error equals the target, or its \<^verbatim>\<open>Is\<close> method
  accepts it, or the error it unwraps to (only \<open>resolverError\<close> has
  \<^verbatim>\<open>Unwrap\<close>) does.
\<close>

fun errors_Is :: "error \<Rightarrow> error \<Rightarrow> bool" where
  "errors_Is (resolverError e) target =
     (resolverError e = target \<or> Is_method (resolverError e) target \<or> errors_Is e target)"
| "errors_Is e target = (e = target \<or> Is_method e target)"

section \<open>Registration validation\<close>

definition isConcrete :: "ty \<Rightarrow> bool" where
  "isConcrete typ = (Kind typ \<noteq> KInterface)"

definition isSharable :: "ty \<Rightarrow> bool" where
  "isSharable typ =
     (let kind = Kind typ in
      if kind = KPointer then True
      else if kind = KChan then True
      else False)"

text \<open>
  \<^verbatim>\<open>reflect.Type.AssignableTo\<close> belongs to the language runtime, not to the
  package; it is the parameter \<open>asg\<close> (\<open>asg impl target\<close> is
  \<^verbatim>\<open>impl.AssignableTo(target)\<close>). A returned \<open>None\<close> is the nil error.
\<close>

definition validateRegistrationTypes :: "(ty \<Rightarrow> ty \<Rightarrow> bool) \<Rightarrow> ty \<Rightarrow> ty \<Rightarrow> error option" where
  "validateRegistrationTypes asg target impl =
     (if \<not> isConcrete impl then Some (NonConcreteImplementation impl)
      else if \<not> asg impl target then Some (InvalidImplementation impl target)
      else None)"

definition validateLifetime :: "ty \<Rightarrow> Lifetime \<Rightarrow> error option" where
  "validateLifetime impl lifetime =
     (if knownLifetimes lifetime = None then Some (UndefinedLifetime lifetime)
      else if lifetime \<noteq> Transient \<and> \<not> isSharable impl then Some (UnsharableType impl lifetime)
      else None)"

section \<open>Values, memory and factories\<close>

text \<open>
  A value of type \<^verbatim>\<open>any\<close>: the nil interface, or a value with its dynamic
  type. \<open>Zero typ\<close> is \<^verbatim>\<open>reflect.Zero(typ).Interface()\<close>; a struct value holds
  its field values in declaration order; a map, a channel and a non-nil pointer
  refer to a cell of the memory, and two of them are the same instance exactly when
  they refer to the same cell.
\<close>

type_synonym addr = nat

datatype val =
    Nil
  | Zero ty
  | StructV ty "val list"
  | MapV ty addr
  | ChanV ty addr
  | PtrV ty addr
  | Other ty nat

datatype cell = Variable val | MapData "(val \<times> val) list" | ChanData nat

type_synonym heap = "cell list"

text \<open>\<^verbatim>\<open>reflect.TypeOf\<close>: nil for the nil interface.\<close>

fun TypeOf :: "val \<Rightarrow> ty option" where
  "TypeOf Nil = None"
| "TypeOf (Zero t) = Some t"
| "TypeOf (StructV t vs) = Some t"
| "TypeOf (MapV t a) = Some t"
| "TypeOf (ChanV t a) = Some t"
| "TypeOf (PtrV t a) = Some t"
| "TypeOf (Other t n) = Some t"

text \<open>
  The type assertion \<^verbatim>\<open>x.(T)\<close>: it fails on the nil interface; for an interface
  type \<open>T\<close> the dynamic type must implement \<open>T\<close> (which is assignability to an
  interface type), for any other \<open>T\<close> it must be \<open>T\<close> itself.
\<close>

definition type_assert :: "(ty \<Rightarrow> ty \<Rightarrow> bool) \<Rightarrow> val \<Rightarrow> ty \<Rightarrow> bool" where
  "type_assert asg x T =
     (case TypeOf x of
        None \<Rightarrow> False
      | Some d \<Rightarrow> if Kind T = KInterface then asg d T else d = T)"

text \<open>\<^verbatim>\<open>var zero T\<close> as a value of type \<^verbatim>\<open>any\<close>.\<close>

definition zero_value :: "ty \<Rightarrow> val" where
  "zero_value T = (if Kind T = KInterface then Nil else Zero T)"

text \<open>
  A Go function returns the pair \<^verbatim>\<open>(any, error)\<close>; \<open>None\<close> is the nil error.

  Code that is handed a \<^verbatim>\<open>Resolver\<close> (a factory, the typed \<^verbatim>\<open>Resolve\<close>
  function) is a tree of its calls of \<^verbatim>\<open>resolver.Resolve\<close>: it returns a result
  and the memory as it leaves it, or asks the resolver for a type, handing over the
  memory, and goes on with the answer and the memory the resolver left, or panics.
  A factory is such a tree for every memory it may start in; it reaches the container
  only through the resolver it is given.
\<close>

type_synonym result = "val \<times> error option"

datatype prog =
    Return result heap
  | Ask ty heap "result \<times> heap \<Rightarrow> prog"
  | Panic

type_synonym factoryFunc = "heap \<Rightarrow> prog"

text \<open>Running \<open>p\<close> and going on with what it returns.\<close>

primrec bind :: "prog \<Rightarrow> (result \<times> heap \<Rightarrow> prog) \<Rightarrow> prog" where
  "bind (Return r h) f = f (r, h)"
| "bind (Ask t h k) f = Ask t h (\<lambda>x. bind (k x) f)"
| "bind Panic f = Panic"

section \<open>Default factories\<close>

text \<open>
  The loop of \<open>getDefaultStructFactory\<close> over the fields from index \<open>i\<close> on;
  \<open>val\<close> is the struct under construction (the storage \<^verbatim>\<open>reflect.New\<close> gives
  never leaves the function, so it is the loop's accumulator). \<^verbatim>\<open>Set\<close> stores the
  resolved value in the field; the value is kept here as it was resolved, with its
  dynamic type.
\<close>

fun structFields :: "(ty \<Rightarrow> ty \<Rightarrow> bool) \<Rightarrow> ty \<Rightarrow> field list \<Rightarrow> nat \<Rightarrow> val list \<Rightarrow> heap \<Rightarrow> prog" where
  "structFields asg typ [] i val h = Return (StructV typ val, None) h"
| "structFields asg typ (field # rest) i val h =
     (if \<not> IsExported field then structFields asg typ rest (Suc i) val h
      else Ask (fieldType field) h (\<lambda>((resolved, err), h').
        case err of
          Some e \<Rightarrow> Return (Nil, Some (resolverError e)) h'
        | None \<Rightarrow>
            (case TypeOf resolved of
               None \<Rightarrow> Return (Nil, Some (InvalidResolution (fieldType field) (TypeOf resolved))) h'
             | Some resolvedType \<Rightarrow>
                 if \<not> asg resolvedType (fieldType field)
                 then Return (Nil, Some (InvalidResolution (fieldType field) (TypeOf resolved))) h'
                 else structFields asg typ rest (Suc i) (val[i := resolved]) h')))"

text \<open>
  \<open>getDefaultStructFactory\<close> always returns a factory. \<^verbatim>\<open>typ.NumField()\<close>
  panics in it when the kind of \<open>typ\<close> is not Struct.
\<close>

definition getDefaultStructFactory :: "(ty \<Rightarrow> ty \<Rightarrow> bool) \<Rightarrow> ty \<Rightarrow> (error + factoryFunc) option" where
  "getDefaultStructFactory asg typ =
     Some (Inr (\<lambda>h. if Kind typ = KStruct
                    then structFields asg typ (Fields typ) 0
                           (map (\<lambda>f. Zero (fieldType f)) (Fields typ)) h
                    else Panic))"

text \<open>The kinds of the first case of the switch in \<open>getDefaultFactory\<close>.\<close>

definition zeroKinds :: "kind list" where
  "zeroKinds =
     [KBool,
      KInt, KInt8, KInt16, KInt32, KInt64,
      KUint, KUint8, KUint16, KUint32, KUint64,
      KFloat32, KFloat64,
      KComplex64, KComplex128,
      KArray,
      KString,
      KSlice]"

text \<open>
  \<open>getDefaultFactory\<close> and \<open>getDefaultPointerFactory\<close> return
  \<^verbatim>\<open>(factoryFunc, error)\<close>, of which exactly one is nil: \<open>Inl\<close> the error,
  \<open>Inr\<close> the factory. The two functions call each other, without end on a pointer
  type such as \<^verbatim>\<open>type P *P\<close>; they are one function here, \<open>defaultFactory\<close>,
  whose argument \<open>pointer\<close> says which of the two is called. The outer \<open>None\<close> is
  a call that does not return: the recursion does not end, or \<^verbatim>\<open>typ.Elem()\<close>
  panics. \<^verbatim>\<open>reflect.MakeChan\<close> panics for a channel type that is not
  bidirectional, and in the pointer factory
  \<^verbatim>\<open>pVal.Elem().Set(reflect.ValueOf(v))\<close> panics when \<open>v\<close> is nil or its type is
  not assignable to the element type. The pointer \<^verbatim>\<open>reflect.New(typ.Elem())\<close> gives
  has the type \<^verbatim>\<open>*Elem\<close>, also when \<open>typ\<close> is a defined pointer type.
\<close>

partial_function (option) defaultFactory ::
  "(ty \<Rightarrow> ty \<Rightarrow> bool) \<Rightarrow> bool \<Rightarrow> ty \<Rightarrow> (error + factoryFunc) option" where
  "defaultFactory asg pointer typ =
     (if \<not> pointer then
        (if Kind typ \<in> set zeroKinds then Some (Inr (\<lambda>h. Return (Zero typ, None) h))
         else if Kind typ = KMap
           then Some (Inr (\<lambda>h. Return (MapV typ (length h), None) (h @ [MapData []])))
         else if Kind typ = KChan
           then Some (Inr (\<lambda>h. if ChanDir typ = Some BothDir
                                 then Return (ChanV typ (length h), None) (h @ [ChanData 0])
                                 else Panic))
         else if Kind typ = KStruct then getDefaultStructFactory asg typ
         else if Kind typ = KPointer then defaultFactory asg True typ
         else Some (Inl (NoDefaultFactory typ)))
      else
        (case Elem typ of
           None \<Rightarrow> None
         | Some elemType \<Rightarrow>
             Option.bind (defaultFactory asg False elemType) (\<lambda>res.
               case res of
                 Inl err \<Rightarrow>
                   if errors_Is err ErrNoDefaultFactory then Some (Inl (NoDefaultFactory typ))
                   else Some (Inl err)
               | Inr elemFactory \<Rightarrow>
                   Some (Inr (\<lambda>h. bind (elemFactory h) (\<lambda>((v, err), h').
                     case err of
                       Some e \<Rightarrow> Return (Nil, Some e) h'
                     | None \<Rightarrow>
                         (case TypeOf v of
                            None \<Rightarrow> Panic
                          | Some t \<Rightarrow>
                              if asg t elemType
                              then Return (PtrV (PointerT elemType) (length h'), None)
                                     (h' @ [Variable v])
                              else Panic)))))))"

definition getDefaultFactory :: "(ty \<Rightarrow> ty \<Rightarrow> bool) \<Rightarrow> ty \<Rightarrow> (error + factoryFunc) option" where
  "getDefaultFactory asg typ = defaultFactory asg False typ"

definition getDefaultPointerFactory :: "(ty \<Rightarrow> ty \<Rightarrow> bool) \<Rightarrow> ty \<Rightarrow> (error + factoryFunc) option" where
  "getDefaultPointerFactory asg typ = defaultFactory asg True typ"



text \<open>
  \<open>GetDefaultFactory[T]\<close>: the factory of \<open>getDefaultFactory\<close> with its result
  asserted to be a \<open>T\<close> (\<^verbatim>\<open>v.(T)\<close> panics when the assertion fails).
\<close>

definition GetDefaultFactory :: "(ty \<Rightarrow> ty \<Rightarrow> bool) \<Rightarrow> ty \<Rightarrow> (error + factoryFunc) option" where
  "GetDefaultFactory asg T =
     (case getDefaultFactory asg T of
        None \<Rightarrow> None
      | Some (Inl err) \<Rightarrow> Some (Inl err)
      | Some (Inr factory) \<Rightarrow>
          Some (Inr (\<lambda>h. bind (factory h) (\<lambda>((v, err), h').
            case err of
              Some e \<Rightarrow> Return (zero_value T, Some e) h'
            | None \<Rightarrow> if type_assert asg v T then Return (v, None) h' else Panic))))"

section \<open>The registry\<close>

text \<open>
  A registration holds the lifetime and the factory with its result as \<^verbatim>\<open>any\<close>.
  A Go map is a reference: a \<open>Registry\<close> value holds nil or the address of a map,
  and copying the struct copies the address. \<open>mapstore\<close> holds the maps made so far,
  by address.
\<close>

record registration =
  lifetime :: Lifetime
  factory :: factoryFunc

type_synonym regmap = "ty \<rightharpoonup> registration"

type_synonym mapstore = "regmap list"

record Registry =
  registrations :: "addr option"

text \<open>Reading a map through its reference; a nil map reads as empty.\<close>

definition mapOf :: "mapstore \<Rightarrow> addr option \<Rightarrow> regmap" where
  "mapOf ms ref = (case ref of None \<Rightarrow> Map.empty | Some a \<Rightarrow> ms ! a)"

definition addRegistration ::
  "Registry \<Rightarrow> ty \<Rightarrow> registration \<Rightarrow> mapstore \<Rightarrow> Registry \<times> mapstore" where
  "addRegistration registry target registration' ms =
     (case registrations registry of
        None \<Rightarrow>
          (registry\<lparr>registrations := Some (length ms)\<rparr>,
           ms @ [Map.empty(target \<mapsto> registration')])
      | Some a \<Rightarrow> (registry, ms[a := (ms ! a)(target \<mapsto> registration')]))"

text \<open>
  \<open>RegisterFactory[Target, Impl]\<close>; \<open>factory\<close> is \<open>None\<close> for a nil factory.
  The result is \<^verbatim>\<open>(Registry, error)\<close> and the maps as the call leaves them.
\<close>

definition RegisterFactory ::
  "(ty \<Rightarrow> ty \<Rightarrow> bool) \<Rightarrow> ty \<Rightarrow> ty \<Rightarrow> Registry \<Rightarrow> Lifetime \<Rightarrow> factoryFunc option \<Rightarrow> mapstore
   \<Rightarrow> (Registry \<times> error option) \<times> mapstore" where
  "RegisterFactory asg target impl registry lifetime' factory' ms =
     (case validateRegistrationTypes asg target impl of
        Some err \<Rightarrow> ((registry, Some err), ms)
      | None \<Rightarrow>
          (case validateLifetime impl lifetime' of
             Some err \<Rightarrow> ((registry, Some err), ms)
           | None \<Rightarrow>
               (case factory' of
                  None \<Rightarrow> ((registry, Some ErrNilFactory), ms)
                | Some f \<Rightarrow>
                    (let (registry', ms') =
                       addRegistration registry target
                         \<lparr>lifetime = lifetime', factory = (\<lambda>resolver. f resolver)\<rparr> ms
                     in ((registry', None), ms')))))"

text \<open>
  \<open>RegisterType[Target, Impl]\<close>; the outer \<open>None\<close> is a call that does not
  return, because \<open>GetDefaultFactory\<close> does not.
\<close>

definition RegisterType ::
  "(ty \<Rightarrow> ty \<Rightarrow> bool) \<Rightarrow> ty \<Rightarrow> ty \<Rightarrow> Registry \<Rightarrow> Lifetime \<Rightarrow> mapstore
   \<Rightarrow> ((Registry \<times> error option) \<times> mapstore) option" where
  "RegisterType asg target impl registry lifetime' ms =
     (case GetDefaultFactory asg impl of
        None \<Rightarrow> None
      | Some (Inl err) \<Rightarrow> Some ((registry, Some err), ms)
      | Some (Inr factory') \<Rightarrow>
          Some (RegisterFactory asg target impl registry lifetime' (Some factory') ms))"

text \<open>
  \<open>BuildRootProvider\<close> gives the provider a clone of the registry's map
  (\<^verbatim>\<open>maps.Clone\<close> of nil is nil) and a new empty \<open>instanceMap\<close>; the field
  here is the provider's \<open>registrations\<close>.
\<close>

record RootProvider =
  provider_registrations :: "addr option"

definition BuildRootProvider :: "Registry \<Rightarrow> mapstore \<Rightarrow> (RootProvider \<times> error option) \<times> mapstore" where
  "BuildRootProvider r ms =
     (case registrations r of
        None \<Rightarrow> ((\<lparr>provider_registrations = None\<rparr>, None), ms)
      | Some a \<Rightarrow> ((\<lparr>provider_registrations = Some (length ms)\<rparr>, None), ms @ [ms ! a]))"

section \<open>Providers and scopes\<close>

text \<open>
  An \<open>instanceMap\<close> is its mutex (held or not) and its map. The state a built root
  provider works on: its \<open>singletons\<close>, the \<open>scopedValues\<close> of every scope
  made from it (a scope is the index of its \<open>instanceMap\<close>), the memory, and the
  record \<open>invoked\<close> of every call of a registration's factory that returned: the
  type resolved, the resolver the factory was handed and what it returned. The
  record is there for the statements about factories being called; no function reads
  it.
\<close>

record instanceMap =
  locked :: bool
  instances :: "ty \<rightharpoonup> val"

datatype resolver = Root | ScopeR nat

datatype mapref = SingletonsOf | ScopedValuesOf nat

record state =
  singletons :: instanceMap
  scopedValues :: "nat \<Rightarrow> instanceMap"
  nscopes :: nat
  mem :: heap
  invoked :: "(ty \<times> resolver \<times> result) list"

definition getMap :: "state \<Rightarrow> mapref \<Rightarrow> instanceMap" where
  "getMap st m = (case m of SingletonsOf \<Rightarrow> singletons st | ScopedValuesOf i \<Rightarrow> scopedValues st i)"

definition setMap :: "state \<Rightarrow> mapref \<Rightarrow> instanceMap \<Rightarrow> state" where
  "setMap st m v =
     (case m of
        SingletonsOf \<Rightarrow> st\<lparr>singletons := v\<rparr>
      | ScopedValuesOf i \<Rightarrow> st\<lparr>scopedValues := (scopedValues st)(i := v)\<rparr>)"

text \<open>
  A call either returns, or panics, or does not return at all (it waits for a mutex
  its own caller holds, or the factories call each other without end): \<open>None\<close>.
\<close>

datatype 'a outcome = Returns 'a | Panics

type_synonym resolve = "resolver \<Rightarrow> ty \<Rightarrow> state \<Rightarrow> (result \<times> state) outcome option"

text \<open>
  Running code that was handed the resolver \<open>r\<close>; \<open>rc\<close> is what
  \<^verbatim>\<open>Resolve\<close> of a resolver does.
\<close>

primrec run :: "resolve \<Rightarrow> resolver \<Rightarrow> prog \<Rightarrow> state \<Rightarrow> (result \<times> state) outcome option" where
  "run rc r (Return res h) st = Some (Returns (res, st\<lparr>mem := h\<rparr>))"
| "run rc r (Ask t h k) st =
     (case rc r t (st\<lparr>mem := h\<rparr>) of
        None \<Rightarrow> None
      | Some Panics \<Rightarrow> Some Panics
      | Some (Returns (res, st')) \<Rightarrow> run rc r (k (res, mem st')) st')"
| "run rc r Panic st = Some Panics"

text \<open>\<^verbatim>\<open>factory(resolver)\<close> for the registration of \<open>typ\<close>, recorded when it returns.\<close>

definition invoke :: "resolve \<Rightarrow> ty \<Rightarrow> factoryFunc \<Rightarrow> resolver \<Rightarrow> state \<Rightarrow> (result \<times> state) outcome option" where
  "invoke rc typ factory' r st =
     (case run rc r (factory' (mem st)) st of
        None \<Rightarrow> None
      | Some Panics \<Rightarrow> Some Panics
      | Some (Returns (res, st')) \<Rightarrow>
          Some (Returns (res, st'\<lparr>invoked := invoked st' @ [(typ, r, res)]\<rparr>)))"

text \<open>
  \<open>instanceMap.get\<close> takes the read lock, which waits while the mutex is held:
  \<open>None\<close>. Otherwise it is the map's entry (\<^verbatim>\<open>v, ok\<close>).
\<close>

definition instanceMap_get :: "instanceMap \<Rightarrow> ty \<Rightarrow> val option option" where
  "instanceMap_get m typ = (if locked m then None else Some (instances m typ))"

text \<open>
  \<open>instanceMap.resolve\<close> on the map \<open>m\<close> of the state. The deferred
  \<^verbatim>\<open>Unlock\<close> runs on every way out.
\<close>

definition instanceMap_resolve ::
  "resolve \<Rightarrow> mapref \<Rightarrow> ty \<Rightarrow> factoryFunc \<Rightarrow> resolver \<Rightarrow> state \<Rightarrow> (result \<times> state) outcome option" where
  "instanceMap_resolve rc m typ factory' r st =
     (case instanceMap_get (getMap st m) typ of
        None \<Rightarrow> None
      | Some (Some v) \<Rightarrow> Some (Returns ((v, None), st))
      | Some None \<Rightarrow>
          (let st1 = setMap st m ((getMap st m)\<lparr>locked := True\<rparr>) in
           case instances (getMap st1 m) typ of
             Some service \<Rightarrow>
               Some (Returns ((service, None), setMap st1 m ((getMap st1 m)\<lparr>locked := False\<rparr>)))
           | None \<Rightarrow>
               (case invoke rc typ factory' r st1 of
                  None \<Rightarrow> None
                | Some Panics \<Rightarrow> Some Panics
                | Some (Returns ((service, err), st2)) \<Rightarrow>
                    (case err of
                       Some e \<Rightarrow>
                         Some (Returns ((Nil, Some e),
                           setMap st2 m ((getMap st2 m)\<lparr>locked := False\<rparr>)))
                     | None \<Rightarrow>
                         Some (Returns ((service, None),
                           setMap st2 m
                             ((getMap st2 m)\<lparr>instances := (instances (getMap st2 m))(typ \<mapsto> service),
                                               locked := False\<rparr>)))))))"

text \<open>
  \<open>RootProvider.Resolve\<close>; \<open>regs\<close> is the provider's \<open>registrations\<close> map,
  which nothing writes after \<open>BuildRootProvider\<close> cloned it.
\<close>

definition RootProvider_Resolve :: "resolve \<Rightarrow> regmap \<Rightarrow> ty \<Rightarrow> state \<Rightarrow> (result \<times> state) outcome option" where
  "RootProvider_Resolve rc regs typ st =
     (case regs typ of
        None \<Rightarrow> Some (Returns ((Nil, Some (UnknownType typ)), st))
      | Some registration' \<Rightarrow>
          if lifetime registration' = Transient
            then invoke rc typ (factory registration') Root st
          else if lifetime registration' = Scoped
            then Some (Returns ((Nil, Some (ScopedValueRequestedFromRootProvider typ)), st))
          else if lifetime registration' = Singleton
            then instanceMap_resolve rc SingletonsOf typ (factory registration') Root st
          else Some Panics)"

text \<open>\<open>Scope.Resolve\<close> for the scope whose \<open>scopedValues\<close> is map \<open>scope\<close>.\<close>

definition Scope_Resolve :: "resolve \<Rightarrow> regmap \<Rightarrow> nat \<Rightarrow> ty \<Rightarrow> state \<Rightarrow> (result \<times> state) outcome option" where
  "Scope_Resolve rc regs scope typ st =
     (case regs typ of
        Some registration' \<Rightarrow>
          if lifetime registration' = Scoped
          then instanceMap_resolve rc (ScopedValuesOf scope) typ (factory registration')
                 (ScopeR scope) st
          else RootProvider_Resolve rc regs typ st
      | None \<Rightarrow> RootProvider_Resolve rc regs typ st)"

text \<open>
  \<^verbatim>\<open>resolver.Resolve(typ)\<close> as a factory calls it, for the two resolvers of the
  package. The number bounds how deep factories may call the resolver inside each
  other; when it is used up the call does not return.
\<close>

primrec Resolver_Resolve :: "nat \<Rightarrow> regmap \<Rightarrow> resolve" where
  "Resolver_Resolve 0 regs = (\<lambda>r typ st. None)"
| "Resolver_Resolve (Suc n) regs =
     (\<lambda>r typ st. case r of
        Root \<Rightarrow> RootProvider_Resolve (Resolver_Resolve n regs) regs typ st
      | ScopeR scope \<Rightarrow> Scope_Resolve (Resolver_Resolve n regs) regs scope typ st)"

text \<open>
  \<open>RootProvider.NewScope\<close> and \<open>Scope.NewScope\<close>: a new scope with a new empty
  \<open>instanceMap\<close>; the scope made is returned with the state.
\<close>

definition RootProvider_NewScope :: "state \<Rightarrow> nat \<times> state" where
  "RootProvider_NewScope st =
     (nscopes st,
      st\<lparr>scopedValues := (scopedValues st)(nscopes st := \<lparr>locked = False, instances = Map.empty\<rparr>),
         nscopes := Suc (nscopes st)\<rparr>)"

definition Scope_NewScope :: "nat \<Rightarrow> state \<Rightarrow> nat \<times> state" where
  "Scope_NewScope scope st = RootProvider_NewScope st"

text \<open>The state of a provider as \<open>BuildRootProvider\<close> returns it, in memory \<open>h\<close>.\<close>

definition built :: "heap \<Rightarrow> state" where
  "built h =
     \<lparr>singletons = \<lparr>locked = False, instances = Map.empty\<rparr>,
      scopedValues = (\<lambda>i. \<lparr>locked = False, instances = Map.empty\<rparr>),
      nscopes = 0,
      mem = h,
      invoked = []\<rparr>"

section \<open>The typed Resolve function\<close>

text \<open>
  \<open>Resolve[T](resolver)\<close>; \<open>resolver_nil\<close> says that the argument is nil. The
  result \<^verbatim>\<open>(T, error)\<close> is given as \<^verbatim>\<open>(any, error)\<close>.
\<close>

definition Resolve :: "(ty \<Rightarrow> ty \<Rightarrow> bool) \<Rightarrow> ty \<Rightarrow> bool \<Rightarrow> heap \<Rightarrow> prog" where
  "Resolve asg T resolver_nil h =
     (if resolver_nil then Return (zero_value T, Some ErrNilResolver) h
      else Ask T h (\<lambda>((resolved, err), h').
        case err of
          Some e \<Rightarrow> Return (zero_value T, Some (resolverError e)) h'
        | None \<Rightarrow>
            if \<not> type_assert asg resolved T
            then Return (zero_value T, Some (InvalidResolution T (TypeOf resolved))) h'
            else Return (resolved, None) h'))"

section \<open>Registering twice, building in between\<close>

text \<open>A registry's reference is valid when it is nil or the address of a map made.\<close>

definition valid_ref :: "mapstore \<Rightarrow> addr option \<Rightarrow> bool" where
  "valid_ref ms ref = (case ref of None \<Rightarrow> True | Some a \<Rightarrow> a < length ms)"

text \<open>
  A run of the package: \<^verbatim>\<open>int\<close> is registered in the empty registry
  (\<open>oneRegistration\<close>), then \<^verbatim>\<open>string\<close> is registered in the registry that
  call returned (\<open>twoRegistrations\<close>); or a provider is built after the first call
  (\<open>builtFromOne\<close>) and \<^verbatim>\<open>string\<close> is registered after that
  (\<open>twoAfterBuild\<close>).
\<close>

definition intFactory :: factoryFunc where
  "intFactory = (\<lambda>h. Return (Zero (BasicT BInt), None) h)"

definition stringFactory :: factoryFunc where
  "stringFactory = (\<lambda>h. Return (Zero (BasicT BString), None) h)"

definition oneRegistration :: "(Registry \<times> error option) \<times> mapstore" where
  "oneRegistration =
     RegisterFactory (=) (BasicT BInt) (BasicT BInt) \<lparr>registrations = None\<rparr> Transient
       (Some intFactory) []"

definition twoRegistrations :: "(Registry \<times> error option) \<times> mapstore" where
  "twoRegistrations =
     RegisterFactory (=) (BasicT BString) (BasicT BString) (fst (fst oneRegistration)) Transient
       (Some stringFactory) (snd oneRegistration)"

definition builtFromOne :: "(RootProvider \<times> error option) \<times> mapstore" where
  "builtFromOne = BuildRootProvider (fst (fst oneRegistration)) (snd oneRegistration)"

definition twoAfterBuild :: "(Registry \<times> error option) \<times> mapstore" where
  "twoAfterBuild =
     RegisterFactory (=) (BasicT BString) (BasicT BString) (fst (fst oneRegistration)) Transient
       (Some stringFactory) (snd builtFromOne)"

section \<open>Pointers to pointers\<close>




section \<open>A factory against the answers of a resolver\<close>

text \<open>
  Whatever a resolver is, code that calls it sees the answers it gives, each with
  the memory it leaves. \<open>feed p answers\<close> runs \<open>p\<close> against these answers in
  order: it gives the requests made (the type asked for and the memory handed over),
  and what is left of \<open>p\<close> when the answers are used up or \<open>p\<close> has ended.
\<close>

primrec feed :: "prog \<Rightarrow> (result \<times> heap) list \<Rightarrow> (ty \<times> heap) list \<times> prog" where
  "feed (Return res h) answers = ([], Return res h)"
| "feed (Ask t h k) answers =
     (case answers of
        [] \<Rightarrow> ([], Ask t h k)
      | a # rest \<Rightarrow> (let (asked, p) = feed (k a) rest in ((t, h) # asked, p)))"
| "feed Panic answers = ([], Panic)"

text \<open>
  What the claim says of the struct a default factory makes: the values resolved, in
  order, in the exported fields and the zero value in every other field.
\<close>

fun assigned :: "field list \<Rightarrow> val list \<Rightarrow> val list" where
  "assigned [] vs = []"
| "assigned (f # fs) vs =
     (if IsExported f
      then (case vs of [] \<Rightarrow> [] | v # vs' \<Rightarrow> v # assigned fs vs')
      else Zero (fieldType f) # assigned fs vs)"

text \<open>
  An answer the factory accepts for a field of type \<open>ft\<close> (no error, a value that is
  not nil and whose type is assignable to \<open>ft\<close>), and the error it fails with on any
  other answer.
\<close>

definition accepts :: "(ty \<Rightarrow> ty \<Rightarrow> bool) \<Rightarrow> ty \<Rightarrow> result \<times> heap \<Rightarrow> bool" where
  "accepts asg ft a =
     (snd (fst a) = None \<and> (case TypeOf (fst (fst a)) of None \<Rightarrow> False | Some t \<Rightarrow> asg t ft))"

definition rejection :: "ty \<Rightarrow> result \<Rightarrow> error" where
  "rejection ft res =
     (case snd res of
        Some e \<Rightarrow> resolverError e
      | None \<Rightarrow> InvalidResolution ft (TypeOf (fst res)))"

definition exportedTypes :: "ty \<Rightarrow> ty list" where
  "exportedTypes T = map fieldType (filter IsExported (Fields T))"

text \<open>The struct of the repository's tests: \<^verbatim>\<open>struct { X int; y float64 }\<close>.\<close>

definition widget :: ty where
  "widget = StructT [(''X'', True, BasicT BInt), (''y'', False, BasicT BFloat64)]"

section \<open>A client's calls, one after the other\<close>

text \<open>
  What a client does with a built provider: it resolves a type from the root provider
  or from a scope, or makes a scope from the root provider or from a scope. \<open>exec\<close>
  runs such calls in order from a state and gives the answers, one for each call, and
  the state at the end. It is \<open>None\<close> when a call does not return or panics, or
  names a scope that has not been made (a client only has the scopes that
  \<open>NewScope\<close> returned to it). Every \<open>Resolve\<close> of the client is run with
  the same bound \<open>n\<close>.
\<close>

datatype op = OpResolve resolver ty | OpNewScope | OpNewScopeOf nat

datatype answer = Resolved result | Made nat

definition made :: "state \<Rightarrow> resolver \<Rightarrow> bool" where
  "made st r = (case r of Root \<Rightarrow> True | ScopeR scope \<Rightarrow> scope < nscopes st)"


fun exec :: "nat \<Rightarrow> regmap \<Rightarrow> op list \<Rightarrow> state \<Rightarrow> (answer list \<times> state) option" where
  "exec n regs [] st = Some ([], st)"
| "exec n regs (OpResolve r T # ops) st =
     (if \<not> made st r then None
      else case Resolver_Resolve n regs r T st of
        Some (Returns (res, st')) \<Rightarrow>
          (case exec n regs ops st' of
             Some (answers, st'') \<Rightarrow> Some (Resolved res # answers, st'')
           | None \<Rightarrow> None)
      | _ \<Rightarrow> None)"
| "exec n regs (OpNewScope # ops) st =
     (let (scope, st') = RootProvider_NewScope st in
      case exec n regs ops st' of
        Some (answers, st'') \<Rightarrow> Some (Made scope # answers, st'')
      | None \<Rightarrow> None)"
| "exec n regs (OpNewScopeOf parent # ops) st =
     (if \<not> made st (ScopeR parent) then None
      else let (scope, st') = Scope_NewScope parent st in
        case exec n regs ops st' of
          Some (answers, st'') \<Rightarrow> Some (Made scope # answers, st'')
        | None \<Rightarrow> None)"


section \<open>What calls leave as it was\<close>







section \<open>Four runs\<close>












section \<open>The two functions that make default factories\<close>

lemma getDefaultFactory_simps:
  "getDefaultFactory asg typ =
     (if Kind typ \<in> set zeroKinds then Some (Inr (\<lambda>h. Return (Zero typ, None) h))
      else if Kind typ = KMap
        then Some (Inr (\<lambda>h. Return (MapV typ (length h), None) (h @ [MapData []])))
      else if Kind typ = KChan
        then Some (Inr (\<lambda>h. if ChanDir typ = Some BothDir
                              then Return (ChanV typ (length h), None) (h @ [ChanData 0])
                              else Panic))
      else if Kind typ = KStruct then getDefaultStructFactory asg typ
      else if Kind typ = KPointer then getDefaultPointerFactory asg typ
      else Some (Inl (NoDefaultFactory typ)))"
  unfolding getDefaultFactory_def getDefaultPointerFactory_def
  by (subst defaultFactory.simps) simp


section \<open>Lifetime validation\<close>



section \<open>Registering an interface as the implementation\<close>

lemma getDefaultFactory_interface:
  "Kind impl = KInterface \<Longrightarrow> getDefaultFactory asg impl = Some (Inl (NoDefaultFactory impl))"
  by (simp add: getDefaultFactory_simps zeroKinds_def)

text \<open>
  C7. For an interface type \<open>impl\<close>, \<open>RegisterFactory\<close> fails with
  \<open>NonConcreteImplementation impl\<close>, as the claim says, but \<open>RegisterType\<close>
  asks for the default factory before it validates the types and fails with
  \<open>NoDefaultFactory impl\<close> instead. The registry and the maps are left as they
  were by both.
\<close>

theorem RegisterType_interface_impl:
  assumes "Kind impl = KInterface"
  shows "RegisterType asg target impl registry lifetime' ms
           = Some ((registry, Some (NoDefaultFactory impl)), ms)
       \<and> RegisterFactory asg target impl registry lifetime' factory' ms
           = ((registry, Some (NonConcreteImplementation impl)), ms)"
  using assms
  by (simp add: RegisterType_def GetDefaultFactory_def getDefaultFactory_interface
      RegisterFactory_def validateRegistrationTypes_def isConcrete_def)

theorem RegisterType_interface_impl_witness:
  "Kind (InterfaceT [''Read'', ''Write'']) = KInterface
   \<and> RegisterType (\<lambda>a b. True) (InterfaceT [''Read'']) (InterfaceT [''Read'', ''Write''])
        \<lparr>registrations = None\<rparr> Transient []
       = Some ((\<lparr>registrations = None\<rparr>, Some (NoDefaultFactory (InterfaceT [''Read'', ''Write'']))), [])
   \<and> RegisterFactory (\<lambda>a b. True) (InterfaceT [''Read'']) (InterfaceT [''Read'', ''Write''])
        \<lparr>registrations = None\<rparr> Transient (Some (\<lambda>h. Return (Nil, None) h)) []
       = ((\<lparr>registrations = None\<rparr>, Some (NonConcreteImplementation (InterfaceT [''Read'', ''Write'']))), [])"
  using RegisterType_interface_impl [where impl = "InterfaceT [''Read'', ''Write'']"
      and asg = "\<lambda>a b. True" and target = "InterfaceT [''Read'']"
      and registry = "\<lparr>registrations = None\<rparr>" and lifetime' = Transient and ms = "[]"
      and factory' = "Some (\<lambda>h. Return (Nil, None) h)"]
  by simp

section \<open>A nil value from the resolver\<close>

text \<open>
  C10. When the resolver answers the request for \<open>T\<close> with a nil value and a nil
  error, \<open>Resolve[T]\<close> returns the zero value of \<open>T\<close> and
  \<open>InvalidResolution\<close> with \<open>Requested = T\<close> and \<open>Returned = nil\<close>, whatever
  \<open>T\<close> is (an interface type too) and whatever the resolver is.
\<close>

theorem Resolve_nil_value:
  assumes "rc r T (st\<lparr>mem := h\<rparr>) = Some (Returns ((Nil, None), st'))"
  shows "run rc r (Resolve asg T False h) st
           = Some (Returns ((zero_value T, Some (InvalidResolution T None)), st'))"
  using assms by (simp add: Resolve_def type_assert_def)

theorem Resolve_nil_value_witness:
  "(\<lambda>r t st. Some (Returns ((Nil, None), st))) Root (InterfaceT []) ((built [])\<lparr>mem := []\<rparr>)
      = Some (Returns ((Nil, None), built []))
   \<and> run (\<lambda>r t st. Some (Returns ((Nil, None), st))) Root
        (Resolve (\<lambda>a b. True) (InterfaceT []) False []) (built [])
      = Some (Returns ((Nil, Some (InvalidResolution (InterfaceT []) None)), built []))"
  using Resolve_nil_value [where rc = "\<lambda>r t st. Some (Returns ((Nil, None), st))" and r = Root
      and T = "InterfaceT []" and st = "built []" and h = "[]" and st' = "built []"
      and asg = "\<lambda>a b. True"]
  by (simp add: built_def zero_value_def)

section \<open>Scoped types and the root provider\<close>

text \<open>
  C4. For a type registered with the Scoped lifetime, \<open>RootProvider.Resolve\<close>
  returns \<open>ScopedValueRequestedFromRootProvider\<close> carrying the type, in every
  state and whatever the factory is, also when a factory calls it (any depth left);
  the state it returns is the state it was called in, so nothing was constructed and
  no call of a factory was recorded.
\<close>

theorem RootProvider_Resolve_Scoped:
  assumes "regs T = Some registration'" and "lifetime registration' = Scoped"
  shows "RootProvider_Resolve rc regs T st
           = Some (Returns ((Nil, Some (ScopedValueRequestedFromRootProvider T)), st))
       \<and> Resolver_Resolve (Suc n) regs Root T st
           = Some (Returns ((Nil, Some (ScopedValueRequestedFromRootProvider T)), st))"
  using assms by (simp add: RootProvider_Resolve_def Scoped_def Transient_def)

theorem RootProvider_Resolve_Scoped_witness:
  "[PointerT (StructT []) \<mapsto> \<lparr>lifetime = Scoped, factory = (\<lambda>h. Panic)\<rparr>] (PointerT (StructT []))
      = Some \<lparr>lifetime = Scoped, factory = (\<lambda>h. Panic)\<rparr>
   \<and> lifetime \<lparr>lifetime = Scoped, factory = (\<lambda>h. Panic)\<rparr> = Scoped
   \<and> RootProvider_Resolve (\<lambda>r t st. None)
        [PointerT (StructT []) \<mapsto> \<lparr>lifetime = Scoped, factory = (\<lambda>h. Panic)\<rparr>]
        (PointerT (StructT [])) (built [])
      = Some (Returns ((Nil, Some (ScopedValueRequestedFromRootProvider (PointerT (StructT [])))), built []))
   \<and> Resolver_Resolve (Suc 0)
        [PointerT (StructT []) \<mapsto> \<lparr>lifetime = Scoped, factory = (\<lambda>h. Panic)\<rparr>]
        Root (PointerT (StructT [])) (built [])
      = Some (Returns ((Nil, Some (ScopedValueRequestedFromRootProvider (PointerT (StructT [])))), built []))"
  using RootProvider_Resolve_Scoped [where regs = "[PointerT (StructT []) \<mapsto> \<lparr>lifetime = Scoped, factory = (\<lambda>h. Panic)\<rparr>]"
      and T = "PointerT (StructT [])" and registration' = "\<lparr>lifetime = Scoped, factory = (\<lambda>h. Panic)\<rparr>"
      and rc = "\<lambda>r t st. None" and st = "built []" and n = 0]
  by simp

section \<open>What a registration does to the registry it is given\<close>

lemma RegisterFactory_success:
  assumes "RegisterFactory asg target impl r lt fo ms = ((r', None), ms')"
  shows "\<exists>f. fo = Some f
           \<and> addRegistration r target \<lparr>lifetime = lt, factory = f\<rparr> ms = (r', ms')"
  using assms
  by (auto simp: RegisterFactory_def split: option.splits prod.splits)

lemma RegisterType_success:
  assumes "RegisterType asg target impl r lt ms = Some ((r', None), ms')"
  shows "\<exists>f. GetDefaultFactory asg impl = Some (Inr f)
           \<and> addRegistration r target \<lparr>lifetime = lt, factory = f\<rparr> ms = (r', ms')"
  using assms RegisterFactory_success [of asg target impl r lt _ ms r' ms']
  by (auto simp: RegisterType_def split: option.splits sum.splits)

lemma addRegistration_shares_map:
  assumes a: "addRegistration r target reg ms = (r', ms')"
    and v: "valid_ref ms (registrations r)"
  shows "mapOf ms' (registrations r') = (mapOf ms (registrations r))(target \<mapsto> reg)
       \<and> (registrations r = None \<longrightarrow> mapOf ms' (registrations r) = mapOf ms (registrations r))
       \<and> (registrations r \<noteq> None \<longrightarrow> r' = r)
       \<and> (\<forall>b < length ms. registrations r \<noteq> Some b \<longrightarrow> ms' ! b = ms ! b)"
proof (cases "registrations r")
  case None
  with a show ?thesis
    by (auto simp: addRegistration_def mapOf_def nth_append)
next
  case (Some a')
  with v have "a' < length ms" by (simp add: valid_ref_def)
  with a Some show ?thesis
    by (auto simp: addRegistration_def mapOf_def)
qed

lemma BuildRootProvider_clone:
  assumes "BuildRootProvider r ms = ((p, e), ms1)"
    and "valid_ref ms (registrations r)"
  shows "valid_ref ms1 (registrations r)
        \<and> (provider_registrations p = None \<or>
             (\<exists>a. provider_registrations p = Some a \<and> a < length ms1 \<and> registrations r \<noteq> Some a))"
  using assms
  by (auto simp: BuildRootProvider_def valid_ref_def split: option.splits)

lemma oneRegistration_eq:
  "oneRegistration = ((\<lparr>registrations = Some 0\<rparr>, None),
      [[BasicT BInt \<mapsto> \<lparr>lifetime = Transient, factory = intFactory\<rparr>]])"
  by (simp add: oneRegistration_def RegisterFactory_def validateRegistrationTypes_def
      isConcrete_def validateLifetime_def knownLifetimes_def addRegistration_def)

lemma twoRegistrations_eq:
  "twoRegistrations = ((\<lparr>registrations = Some 0\<rparr>, None),
      [[BasicT BInt \<mapsto> \<lparr>lifetime = Transient, factory = intFactory\<rparr>,
        BasicT BString \<mapsto> \<lparr>lifetime = Transient, factory = stringFactory\<rparr>]])"
  by (simp add: twoRegistrations_def oneRegistration_eq RegisterFactory_def validateRegistrationTypes_def
      isConcrete_def validateLifetime_def knownLifetimes_def addRegistration_def)

lemma builtFromOne_eq:
  "builtFromOne = ((\<lparr>provider_registrations = Some (Suc 0)\<rparr>, None),
      [[BasicT BInt \<mapsto> \<lparr>lifetime = Transient, factory = intFactory\<rparr>],
       [BasicT BInt \<mapsto> \<lparr>lifetime = Transient, factory = intFactory\<rparr>]])"
  by (simp add: builtFromOne_def oneRegistration_eq BuildRootProvider_def)

lemma twoAfterBuild_eq:
  "twoAfterBuild = ((\<lparr>registrations = Some 0\<rparr>, None),
      [[BasicT BInt \<mapsto> \<lparr>lifetime = Transient, factory = intFactory\<rparr>,
        BasicT BString \<mapsto> \<lparr>lifetime = Transient, factory = stringFactory\<rparr>],
       [BasicT BInt \<mapsto> \<lparr>lifetime = Transient, factory = intFactory\<rparr>]])"
  by (simp add: twoAfterBuild_def builtFromOne_eq oneRegistration_eq RegisterFactory_def
      validateRegistrationTypes_def isConcrete_def validateLifetime_def knownLifetimes_def
      addRegistration_def)

text \<open>
  C9, as the code has it. A successful \<open>RegisterFactory\<close> or \<open>RegisterType\<close>
  returns a registry whose map is the input's map with the target bound to the new
  registration: the lifetime given and the factory given, for \<open>RegisterType\<close> the
  factory of \<open>GetDefaultFactory\<close> for the implementation type. When the input
  registry's map is nil the call makes a new map and the input registry reads as
  before. Otherwise the call writes into the input registry's own map and returns the
  input value, so the input registry maps the target to the new registration
  afterwards. Every other map is left as it was, in particular the clone a root
  provider built from the registry before the call holds.
\<close>

theorem registration_writes_shared_map:
  assumes v: "valid_ref ms0 (registrations r)"
    and b: "BuildRootProvider r ms0 = ((p, e), ms)"
    and c: "RegisterFactory asg target impl r lt fo ms = ((r', None), ms')
            \<or> RegisterType asg target impl r lt ms = Some ((r', None), ms')"
  shows "(\<exists>f. (RegisterFactory asg target impl r lt fo ms = ((r', None), ms') \<and> fo = Some f
              \<or> RegisterType asg target impl r lt ms = Some ((r', None), ms')
                \<and> GetDefaultFactory asg impl = Some (Inr f))
            \<and> mapOf ms' (registrations r')
                = (mapOf ms (registrations r))(target \<mapsto> \<lparr>lifetime = lt, factory = f\<rparr>)
            \<and> (registrations r \<noteq> None \<longrightarrow>
                 mapOf ms' (registrations r)
                   = (mapOf ms (registrations r))(target \<mapsto> \<lparr>lifetime = lt, factory = f\<rparr>)))
       \<and> (\<forall>f. RegisterFactory asg target impl r lt fo ms = ((r', None), ms') \<longrightarrow> fo = Some f \<longrightarrow>
            mapOf ms' (registrations r') target = Some \<lparr>lifetime = lt, factory = f\<rparr>)
       \<and> (\<forall>f. RegisterType asg target impl r lt ms = Some ((r', None), ms') \<longrightarrow>
            GetDefaultFactory asg impl = Some (Inr f) \<longrightarrow>
            mapOf ms' (registrations r') target = Some \<lparr>lifetime = lt, factory = f\<rparr>)
       \<and> (registrations r = None \<longrightarrow> mapOf ms' (registrations r) = mapOf ms (registrations r))
       \<and> (registrations r \<noteq> None \<longrightarrow> r' = r)
       \<and> (\<forall>b < length ms. registrations r \<noteq> Some b \<longrightarrow> ms' ! b = ms ! b)
       \<and> mapOf ms' (provider_registrations p) = mapOf ms (provider_registrations p)"
proof -
  from BuildRootProvider_clone [OF b v] have v1: "valid_ref ms (registrations r)"
    and p: "provider_registrations p = None \<or>
             (\<exists>a. provider_registrations p = Some a \<and> a < length ms \<and> registrations r \<noteq> Some a)"
    by blast+
  have each: "\<And>f. addRegistration r target \<lparr>lifetime = lt, factory = f\<rparr> ms = (r', ms') \<Longrightarrow>
      mapOf ms' (registrations r')
        = (mapOf ms (registrations r))(target \<mapsto> \<lparr>lifetime = lt, factory = f\<rparr>)
      \<and> (registrations r \<noteq> None \<longrightarrow>
           mapOf ms' (registrations r)
             = (mapOf ms (registrations r))(target \<mapsto> \<lparr>lifetime = lt, factory = f\<rparr>))
      \<and> mapOf ms' (registrations r') target = Some \<lparr>lifetime = lt, factory = f\<rparr>
      \<and> (registrations r = None \<longrightarrow> mapOf ms' (registrations r) = mapOf ms (registrations r))
      \<and> (registrations r \<noteq> None \<longrightarrow> r' = r)
      \<and> (\<forall>b < length ms. registrations r \<noteq> Some b \<longrightarrow> ms' ! b = ms ! b)"
  proof -
    fix f assume a: "addRegistration r target \<lparr>lifetime = lt, factory = f\<rparr> ms = (r', ms')"
    note s = addRegistration_shares_map [OF a v1]
    from s have m: "mapOf ms' (registrations r')
        = (mapOf ms (registrations r))(target \<mapsto> \<lparr>lifetime = lt, factory = f\<rparr>)" by blast
    then have "mapOf ms' (registrations r') target = Some \<lparr>lifetime = lt, factory = f\<rparr>" by simp
    moreover from s m have "registrations r \<noteq> None \<longrightarrow>
           mapOf ms' (registrations r)
             = (mapOf ms (registrations r))(target \<mapsto> \<lparr>lifetime = lt, factory = f\<rparr>)" by auto
    ultimately show "?thesis f" using s by blast
  qed
  have c1: "\<forall>f. RegisterFactory asg target impl r lt fo ms = ((r', None), ms') \<longrightarrow> fo = Some f \<longrightarrow>
            mapOf ms' (registrations r') target = Some \<lparr>lifetime = lt, factory = f\<rparr>"
    using RegisterFactory_success [of asg target impl r lt fo ms r' ms'] each by auto
  have c2: "\<forall>f. RegisterType asg target impl r lt ms = Some ((r', None), ms') \<longrightarrow>
            GetDefaultFactory asg impl = Some (Inr f) \<longrightarrow>
            mapOf ms' (registrations r') target = Some \<lparr>lifetime = lt, factory = f\<rparr>"
    using RegisterType_success [of asg target impl r lt ms r' ms'] each by auto
  from c obtain f where k: "RegisterFactory asg target impl r lt fo ms = ((r', None), ms') \<and> fo = Some f
              \<or> RegisterType asg target impl r lt ms = Some ((r', None), ms')
                \<and> GetDefaultFactory asg impl = Some (Inr f)"
    and a: "addRegistration r target \<lparr>lifetime = lt, factory = f\<rparr> ms = (r', ms')"
    using RegisterFactory_success [of asg target impl r lt fo ms r' ms']
      RegisterType_success [of asg target impl r lt ms r' ms'] by blast
  note e = each [OF a]
  from e have others: "\<forall>b < length ms. registrations r \<noteq> Some b \<longrightarrow> ms' ! b = ms ! b" by blast
  from p others have pr: "mapOf ms' (provider_registrations p) = mapOf ms (provider_registrations p)"
    by (auto simp: mapOf_def)
  from k e have first: "\<exists>f. (RegisterFactory asg target impl r lt fo ms = ((r', None), ms') \<and> fo = Some f
              \<or> RegisterType asg target impl r lt ms = Some ((r', None), ms')
                \<and> GetDefaultFactory asg impl = Some (Inr f))
            \<and> mapOf ms' (registrations r')
                = (mapOf ms (registrations r))(target \<mapsto> \<lparr>lifetime = lt, factory = f\<rparr>)
            \<and> (registrations r \<noteq> None \<longrightarrow>
                 mapOf ms' (registrations r)
                   = (mapOf ms (registrations r))(target \<mapsto> \<lparr>lifetime = lt, factory = f\<rparr>))"
    by blast
  from e have rest: "(registrations r = None \<longrightarrow> mapOf ms' (registrations r) = mapOf ms (registrations r))
       \<and> (registrations r \<noteq> None \<longrightarrow> r' = r)" by blast
  from first c1 c2 rest others pr show ?thesis by blast
qed

theorem registration_writes_shared_map_witness:
  "valid_ref (snd oneRegistration) (registrations (fst (fst oneRegistration)))
   \<and> snd (fst twoAfterBuild) = None
   \<and> fst (fst twoAfterBuild) = fst (fst oneRegistration)
   \<and> mapOf (snd twoAfterBuild) (provider_registrations (fst (fst builtFromOne)))
       = mapOf (snd builtFromOne) (provider_registrations (fst (fst builtFromOne)))"
proof -
  have v: "valid_ref (snd oneRegistration) (registrations (fst (fst oneRegistration)))"
    by (simp add: oneRegistration_eq valid_ref_def)
  have b: "BuildRootProvider (fst (fst oneRegistration)) (snd oneRegistration)
             = ((fst (fst builtFromOne), snd (fst builtFromOne)), snd builtFromOne)"
    by (simp add: builtFromOne_def)
  have c: "RegisterFactory (=) (BasicT BString) (BasicT BString) (fst (fst oneRegistration)) Transient
             (Some stringFactory) (snd builtFromOne)
           = ((fst (fst twoAfterBuild), None), snd twoAfterBuild)"
    by (simp add: twoAfterBuild_def [symmetric] twoAfterBuild_eq)
  from registration_writes_shared_map [OF v b disjI1, OF c]
  have "mapOf (snd twoAfterBuild) (provider_registrations (fst (fst builtFromOne)))
       = mapOf (snd builtFromOne) (provider_registrations (fst (fst builtFromOne)))"
    by blast
  with v show ?thesis by (simp add: twoAfterBuild_eq oneRegistration_eq)
qed

text \<open>
  Counterexample to C9 as it is stated: after the second registration the registry
  value returned by the first one maps \<^verbatim>\<open>string\<close>, which it did not map
  before that call.
\<close>

theorem registration_changes_input_registry:
  "snd (fst oneRegistration) = None
   \<and> snd (fst twoRegistrations) = None
   \<and> mapOf (snd oneRegistration) (registrations (fst (fst oneRegistration))) (BasicT BString) = None
   \<and> mapOf (snd twoRegistrations) (registrations (fst (fst oneRegistration))) (BasicT BString)
       = Some \<lparr>lifetime = Transient, factory = stringFactory\<rparr>"
  by (simp add: oneRegistration_eq twoRegistrations_eq mapOf_def)

section \<open>Running code that is handed a resolver\<close>



lemma Kind_Pointer_Elem: "Kind T = KPointer \<Longrightarrow> \<exists>t. Elem T = Some t"
proof (induction T)
  case (BasicT b)
  then show ?case by (cases b) simp_all
qed simp_all




section \<open>Default factories of pointer types\<close>









section \<open>Default factories of struct types\<close>

lemma structFields_feed_ok:
  assumes "list_all2 (accepts asg) (map fieldType (filter IsExported flds)) answers"
    and "length val = i + length flds"
    and "drop i val = map (\<lambda>f. Zero (fieldType f)) flds"
  shows "feed (structFields asg T flds i val h) answers
       = (zip (map fieldType (filter IsExported flds)) (h # map snd answers),
          Return (StructV T (take i val @ assigned flds (map (fst \<circ> fst) answers)), None)
            (last (h # map snd answers)))"
  using assms
proof (induction flds arbitrary: i val h answers)
  case Nil
  then show ?case by simp
next
  case (Cons f flds)
  from Cons.prems(2) have i: "i < length val" by simp
  from Cons.prems(3) i have vi: "val ! i = Zero (fieldType f)"
    by (metis hd_drop_conv_nth list.sel(1) list.simps(9))
  from Cons.prems(3) have d: "drop (Suc i) val = map (\<lambda>f. Zero (fieldType f)) flds"
    by (metis drop_Suc list.sel(3) list.simps(9) tl_drop)
  show ?case
  proof (cases "IsExported f")
    case False
    with Cons.prems(1) have a: "list_all2 (accepts asg) (map fieldType (filter IsExported flds)) answers"
      by simp
    from Cons.prems(2) have l: "length val = Suc i + length flds" by simp
    from Cons.IH [OF a l d, of h] False i vi show ?thesis
      by (simp add: take_Suc_conv_app_nth)
  next
    case True
    with Cons.prems(1) obtain a rest where ans: "answers = a # rest"
      and acc: "accepts asg (fieldType f) a"
      and r: "list_all2 (accepts asg) (map fieldType (filter IsExported flds)) rest"
      by (auto simp: list_all2_Cons1)
    obtain v e h' where a: "a = ((v, e), h')" by (metis prod.collapse)
    from acc a obtain t where e: "e = None" and t: "TypeOf v = Some t" "asg t (fieldType f)"
      by (auto simp: accepts_def split: option.splits)
    from Cons.prems(2) have l: "length (val[i := v]) = Suc i + length flds" by simp
    from d have d': "drop (Suc i) (val[i := v]) = map (\<lambda>f. Zero (fieldType f)) flds" by simp
    from Cons.IH [OF r l d', of h'] True ans a e t i show ?thesis
      by (simp add: take_Suc_conv_app_nth)
  qed
qed

lemma structFields_feed_bad:
  assumes "length oks < length (map fieldType (filter IsExported flds))"
    and "list_all2 (accepts asg) (take (length oks) (map fieldType (filter IsExported flds))) oks"
    and "\<not> accepts asg (map fieldType (filter IsExported flds) ! length oks) bad"
  shows "feed (structFields asg T flds i val h) (oks @ bad # rest)
       = (zip (take (Suc (length oks)) (map fieldType (filter IsExported flds))) (h # map snd oks),
          Return (Nil, Some (rejection (map fieldType (filter IsExported flds) ! length oks) (fst bad)))
            (snd bad))"
  using assms
proof (induction flds arbitrary: i val h oks)
  case Nil
  then show ?case by simp
next
  case (Cons f flds)
  show ?case
  proof (cases "IsExported f")
    case False
    with Cons.prems Cons.IH [of oks "Suc i" val h] show ?thesis by simp
  next
    case True
    show ?thesis
    proof (cases oks)
      case Nil
      obtain v e h' where b: "bad = ((v, e), h')" by (metis prod.collapse)
      from Cons.prems(3) True Nil b show ?thesis
        by (auto simp: accepts_def rejection_def split: option.splits)
    next
      case (Cons a oks')
      obtain v e h' where a: "a = ((v, e), h')" by (metis prod.collapse)
      from Cons.prems(2) True Cons have acc: "accepts asg (fieldType f) a"
        and r: "list_all2 (accepts asg) (take (length oks') (map fieldType (filter IsExported flds))) oks'"
        by simp_all
      from acc a obtain t where e: "e = None" and t: "TypeOf v = Some t" "asg t (fieldType f)"
        by (auto simp: accepts_def split: option.splits)
      from Cons.prems(1) True Cons have l: "length oks' < length (map fieldType (filter IsExported flds))"
        by simp
      from Cons.prems(3) True Cons have nb: "\<not> accepts asg (map fieldType (filter IsExported flds) ! length oks') bad"
        by simp
      from Cons.IH [OF l r nb, of "Suc i" "val[i := v]" h'] True Cons a e t show ?thesis
        by simp
    qed
  qed
qed

lemma getDefaultFactory_struct:
  "Kind T = KStruct \<Longrightarrow> getDefaultFactory asg T = getDefaultStructFactory asg T"
  by (simp add: getDefaultFactory_simps zeroKinds_def)

text \<open>
  C5. A struct type \<open>T\<close> has a default factory \<open>f\<close>. Against a resolver whose
  answers are all accepted, \<open>f\<close> asks exactly for the declared types of the exported
  fields, in declaration order, handing over the memory as the last answer left it,
  and returns the struct with the values resolved in the exported fields and the zero
  value in every other field. At the first answer that is not accepted \<open>f\<close> stops
  asking and fails: with the resolver's error wrapped in \<open>resolverError\<close> when there
  is one, and otherwise (the value is nil or its type is not assignable to the field's
  type) with \<open>InvalidResolution\<close> of the field's type and the value's type.
\<close>

theorem default_struct_factory:
  assumes "Kind T = KStruct"
  shows "\<exists>f. getDefaultFactory asg T = Some (Inr f)
     \<and> (\<forall>h answers.
          list_all2 (accepts asg) (exportedTypes T) answers \<longrightarrow>
          feed (f h) answers
            = (zip (exportedTypes T) (h # map snd answers),
               Return (StructV T (assigned (Fields T) (map (fst \<circ> fst) answers)), None)
                 (last (h # map snd answers))))
     \<and> (\<forall>h oks bad rest.
          length oks < length (exportedTypes T)
          \<and> list_all2 (accepts asg) (take (length oks) (exportedTypes T)) oks
          \<and> \<not> accepts asg (exportedTypes T ! length oks) bad \<longrightarrow>
          feed (f h) (oks @ bad # rest)
            = (zip (take (Suc (length oks)) (exportedTypes T)) (h # map snd oks),
               Return (Nil, Some (rejection (exportedTypes T ! length oks) (fst bad))) (snd bad)))"
proof -
  let ?f = "\<lambda>h. structFields asg T (Fields T) 0 (map (\<lambda>f. Zero (fieldType f)) (Fields T)) h"
  have f: "getDefaultFactory asg T = Some (Inr ?f)"
    using assms by (simp add: getDefaultFactory_struct getDefaultStructFactory_def)
  have ok: "\<forall>h answers.
          list_all2 (accepts asg) (exportedTypes T) answers \<longrightarrow>
          feed (?f h) answers
            = (zip (exportedTypes T) (h # map snd answers),
               Return (StructV T (assigned (Fields T) (map (fst \<circ> fst) answers)), None)
                 (last (h # map snd answers)))"
  proof (intro allI impI)
    fix h answers
    assume "list_all2 (accepts asg) (exportedTypes T) answers"
    then have a: "list_all2 (accepts asg) (map fieldType (filter IsExported (Fields T))) answers"
      by (simp add: exportedTypes_def)
    from structFields_feed_ok [OF a, of "map (\<lambda>f. Zero (fieldType f)) (Fields T)" 0 T h]
    show "feed (?f h) answers
            = (zip (exportedTypes T) (h # map snd answers),
               Return (StructV T (assigned (Fields T) (map (fst \<circ> fst) answers)), None)
                 (last (h # map snd answers)))"
      by (simp add: exportedTypes_def)
  qed
  have bad: "\<forall>h oks bad rest.
          length oks < length (exportedTypes T)
          \<and> list_all2 (accepts asg) (take (length oks) (exportedTypes T)) oks
          \<and> \<not> accepts asg (exportedTypes T ! length oks) bad \<longrightarrow>
          feed (?f h) (oks @ bad # rest)
            = (zip (take (Suc (length oks)) (exportedTypes T)) (h # map snd oks),
               Return (Nil, Some (rejection (exportedTypes T ! length oks) (fst bad))) (snd bad))"
    using structFields_feed_bad [where flds = "Fields T" and asg = asg and T = T and i = 0]
    unfolding exportedTypes_def by blast
  from f ok bad show ?thesis by blast
qed

theorem default_struct_factory_witness:
  "Kind widget = KStruct
   \<and> (\<exists>f. getDefaultFactory (=) widget = Some (Inr f)
        \<and> feed (f []) [((Other (BasicT BInt) 42, None), [])]
            = ([(BasicT BInt, [])],
               Return (StructV widget [Other (BasicT BInt) 42, Zero (BasicT BFloat64)], None) [])
        \<and> feed (f []) [((Nil, None), [])]
            = ([(BasicT BInt, [])],
               Return (Nil, Some (InvalidResolution (BasicT BInt) None)) []))"
proof -
  have k: "Kind widget = KStruct" by (simp add: widget_def)
  have e: "exportedTypes widget = [BasicT BInt]"
    by (simp add: exportedTypes_def widget_def IsExported_def fieldType_def)
  from default_struct_factory [OF k, of "(=)"] obtain f where
    f: "getDefaultFactory (=) widget = Some (Inr f)"
    and ok: "\<And>h answers. list_all2 (accepts (=)) (exportedTypes widget) answers \<Longrightarrow>
          feed (f h) answers
            = (zip (exportedTypes widget) (h # map snd answers),
               Return (StructV widget (assigned (Fields widget) (map (fst \<circ> fst) answers)), None)
                 (last (h # map snd answers)))"
    and bad: "\<And>h oks bad rest.
          length oks < length (exportedTypes widget)
          \<and> list_all2 (accepts (=)) (take (length oks) (exportedTypes widget)) oks
          \<and> \<not> accepts (=) (exportedTypes widget ! length oks) bad \<Longrightarrow>
          feed (f h) (oks @ bad # rest)
            = (zip (take (Suc (length oks)) (exportedTypes widget)) (h # map snd oks),
               Return (Nil, Some (rejection (exportedTypes widget ! length oks) (fst bad))) (snd bad))"
    by blast
  have 1: "feed (f []) [((Other (BasicT BInt) 42, None), [])]
            = ([(BasicT BInt, [])],
               Return (StructV widget [Other (BasicT BInt) 42, Zero (BasicT BFloat64)], None) [])"
    using ok [of "[((Other (BasicT BInt) 42, None), [])]" "[]"]
    by (simp add: e accepts_def) (simp add: widget_def IsExported_def fieldType_def)
  have 2: "feed (f []) [((Nil, None), [])]
            = ([(BasicT BInt, [])],
               Return (Nil, Some (InvalidResolution (BasicT BInt) None)) [])"
    using bad [of "[]" "((Nil, None), [])" "[]" "[]"]
    by (simp add: e accepts_def rejection_def)
  from k f 1 2 show ?thesis by blast
qed

section \<open>Every call leaves the frame\<close>

lemma getMap_setMap [simp]: "getMap (setMap st m v) m' = (if m' = m then v else getMap st m')"
  by (auto simp: getMap_def setMap_def split: mapref.splits)

lemma setMap_fields [simp]:
  "nscopes (setMap st m v) = nscopes st"
  "mem (setMap st m v) = mem st"
  "invoked (setMap st m v) = invoked st"
  by (simp_all add: setMap_def split: mapref.splits)

lemma getMap_updates [simp]:
  "getMap (st\<lparr>mem := h\<rparr>) m = getMap st m"
  "getMap (st\<lparr>invoked := l\<rparr>) m = getMap st m"
  by (simp_all add: getMap_def split: mapref.splits)













section \<open>The cache of an instanceMap\<close>












section \<open>Scoped values come from recorded factory calls\<close>














section \<open>The record of a singleton's factory\<close>













section \<open>A client's calls\<close>

lemma exec_length: "exec n regs ops st = Some (answers, st') \<Longrightarrow> length answers = length ops"
proof (induction ops arbitrary: st answers)
  case Nil
  then show ?case by simp
next
  case (Cons x ops)
  then show ?case
    by (cases x)
       (auto simp: Scope_NewScope_def split: if_splits option.splits outcome.splits prod.splits)
qed







section \<open>The bound on nested calls\<close>

text \<open>
  A call that returns (or panics) within a bound does the same within every larger
  bound: the bound only decides how deep factories may call the resolver.
\<close>

lemma run_mono:
  assumes le: "\<And>r t st x. rc r t st = Some x \<Longrightarrow> rc' r t st = Some x"
  shows "run rc r p st = Some x \<Longrightarrow> run rc' r p st = Some x"
proof (induction p arbitrary: st)
  case (Return res h)
  then show ?case by simp
next
  case (Ask t h k)
  from Ask.prems obtain y where y: "rc r t (st\<lparr>mem := h\<rparr>) = Some y"
    by (auto split: option.splits)
  from le [OF y] have y': "rc' r t (st\<lparr>mem := h\<rparr>) = Some y" .
  show ?case
  proof (cases y)
    case Panics
    with Ask.prems y y' show ?thesis by simp
  next
    case (Returns a)
    obtain res st1 where a: "a = (res, st1)" by (cases a)
    from Ask.prems y Returns a have "run rc r (k (res, mem st1)) st1 = Some x" by simp
    from Ask.IH [OF _ this] have "run rc' r (k (res, mem st1)) st1 = Some x" by simp
    with y' Returns a show ?thesis by simp
  qed
next
  case Panic
  then show ?case by simp
qed

lemma invoke_mono:
  assumes le: "\<And>r t st x. rc r t st = Some x \<Longrightarrow> rc' r t st = Some x"
    and a: "invoke rc T f r st = Some x"
  shows "invoke rc' T f r st = Some x"
proof -
  from a obtain y where y: "run rc r (f (mem st)) st = Some y"
    by (auto simp: invoke_def split: option.splits)
  from run_mono [of rc rc', OF le y] have "run rc' r (f (mem st)) st = Some y" by simp
  with a y show ?thesis by (simp add: invoke_def)
qed

lemma instanceMap_resolve_mono:
  assumes le: "\<And>r t st x. rc r t st = Some x \<Longrightarrow> rc' r t st = Some x"
    and a: "instanceMap_resolve rc m T f r st = Some x"
  shows "instanceMap_resolve rc' m T f r st = Some x"
proof (cases "instanceMap_get (getMap st m) T = Some None
    \<and> instances (getMap (setMap st m ((getMap st m)\<lparr>locked := True\<rparr>)) m) T = None")
  case False
  with a show ?thesis
    by (auto simp: instanceMap_resolve_def Let_def split: option.splits)
next
  case True
  let ?st1 = "setMap st m ((getMap st m)\<lparr>locked := True\<rparr>)"
  from a True obtain y where y: "invoke rc T f r ?st1 = Some y"
    by (auto simp: instanceMap_resolve_def Let_def split: option.splits)
  from invoke_mono [of rc rc', OF le y] have "invoke rc' T f r ?st1 = Some y" by simp
  with a y True show ?thesis
    by (simp add: instanceMap_resolve_def Let_def)
qed

lemma RootProvider_Resolve_mono:
  assumes le: "\<And>r t st x. rc r t st = Some x \<Longrightarrow> rc' r t st = Some x"
    and a: "RootProvider_Resolve rc regs T st = Some x"
  shows "RootProvider_Resolve rc' regs T st = Some x"
  using a invoke_mono [of rc rc', OF le] instanceMap_resolve_mono [of rc rc', OF le]
  by (auto simp: RootProvider_Resolve_def split: option.splits if_splits)

lemma Scope_Resolve_mono:
  assumes le: "\<And>r t st x. rc r t st = Some x \<Longrightarrow> rc' r t st = Some x"
    and a: "Scope_Resolve rc regs s T st = Some x"
  shows "Scope_Resolve rc' regs s T st = Some x"
  using a RootProvider_Resolve_mono [of rc rc', OF le] instanceMap_resolve_mono [of rc rc', OF le]
  by (auto simp: Scope_Resolve_def split: option.splits if_splits)

lemma Resolver_Resolve_Suc:
  "Resolver_Resolve n regs r T st = Some x \<Longrightarrow> Resolver_Resolve (Suc n) regs r T st = Some x"
proof (induction n arbitrary: r T st x)
  case 0
  then show ?case by simp
next
  case (Suc n)
  have le: "\<And>r t st x. Resolver_Resolve n regs r t st = Some x
      \<Longrightarrow> Resolver_Resolve (Suc n) regs r t st = Some x"
    by (rule Suc.IH)
  from Suc.prems show ?case
    using RootProvider_Resolve_mono [of "Resolver_Resolve n regs" "Resolver_Resolve (Suc n) regs", OF le]
      Scope_Resolve_mono [of "Resolver_Resolve n regs" "Resolver_Resolve (Suc n) regs", OF le]
    by (cases r) auto
qed

lemma Resolver_Resolve_mono:
  "Resolver_Resolve n regs r T st = Some x \<Longrightarrow> Resolver_Resolve (n + k) regs r T st = Some x"
  by (induction k) (auto dest: Resolver_Resolve_Suc)

lemma exec_mono:
  "exec n regs ops st = Some x \<Longrightarrow> exec (n + k) regs ops st = Some x"
proof (induction ops arbitrary: st x)
  case Nil
  then show ?case by simp
next
  case (Cons c ops)
  show ?case
  proof (cases c)
    case (OpResolve r T)
    with Cons.prems obtain res st1 y where
      m: "made st r"
      and a: "Resolver_Resolve n regs r T st = Some (Returns (res, st1))"
      and b: "exec n regs ops st1 = Some y"
      by (auto split: if_splits option.splits outcome.splits prod.splits)
    from Resolver_Resolve_mono [OF a] Cons.IH [OF b] Cons.prems OpResolve m a b
    show ?thesis by simp
  next
    case OpNewScope
    with Cons.prems obtain y where
      b: "exec n regs ops (snd (RootProvider_NewScope st)) = Some y"
      by (auto split: option.splits prod.splits)
    from Cons.IH [OF b] Cons.prems OpNewScope b show ?thesis
      by (simp split: prod.splits)
  next
    case (OpNewScopeOf parent)
    with Cons.prems obtain y where
      m: "made st (ScopeR parent)"
      and b: "exec n regs ops (snd (RootProvider_NewScope st)) = Some y"
      by (auto simp: Scope_NewScope_def split: if_splits option.splits prod.splits)
    from Cons.IH [OF b] Cons.prems OpNewScopeOf b m show ?thesis
      by (simp add: Scope_NewScope_def split: prod.splits)
  qed
qed

section \<open>Singleton and scoped instances\<close>


















end
